theory Spec2Isabelle
  imports Complex_Main
begin

section \<open>Python values, exceptions and array arithmetic\<close>

text \<open>
  The module \<^verbatim>\<open>fusedwind/turbine/geometry.py\<close> works on NumPy arrays of floats
  held in dictionaries. An array is a list; a dictionary is a map from key strings.
  A raised exception is the left summand of the result. \<open>ConfigurationError\<close> and
  \<open>NumericalError\<close> are the names the specification uses; no statement of the module
  raises either, the other constructors are the Python built-ins the module can raise.
\<close>

datatype pyerror =
    KeyError | ValueError | IndexError | NameError | AttributeError | TypeError
  | ImportError | ConfigurationError | NumericalError

definition pybind :: "pyerror + 'a \<Rightarrow> ('a \<Rightarrow> pyerror + 'b) \<Rightarrow> pyerror + 'b" where
  "pybind m f = (case m of Inl e \<Rightarrow> Inl e | Inr v \<Rightarrow> f v)"

definition getitem :: "(string \<rightharpoonup> 'v) \<Rightarrow> string \<Rightarrow> pyerror + 'v" where
  "getitem d k = (case d k of None \<Rightarrow> Inl KeyError | Some v \<Rightarrow> Inr v)"

text \<open>
  \<open>a + b\<close> and \<open>a * b\<close> on one-dimensional arrays: elementwise on equal shapes, a
  one-element array is broadcast, any other pair of shapes raises ValueError.
  The element type is left open, so that what is proved of these operations holds for
  every arithmetic, the IEEE doubles of NumPy included.
\<close>

definition np_binop :: "('a \<Rightarrow> 'a \<Rightarrow> 'a) \<Rightarrow> 'a list \<Rightarrow> 'a list \<Rightarrow> pyerror + 'a list" where
  "np_binop f xs ys =
     (if length xs = length ys then Inr (map2 f xs ys)
      else if length xs = 1 then Inr (map (f (hd xs)) ys)
      else if length ys = 1 then Inr (map (\<lambda>x. f x (hd ys)) xs)
      else Inl ValueError)"

definition np_add :: "'a::plus list \<Rightarrow> 'a list \<Rightarrow> pyerror + 'a list" where
  "np_add = np_binop (+)"

definition np_multiply :: "'a::times list \<Rightarrow> 'a list \<Rightarrow> pyerror + 'a list" where
  "np_multiply = np_binop (*)"

text \<open>An array times a Python float (\<open>self._P * self.scaler\<close>).\<close>

definition np_scale :: "'a::times list \<Rightarrow> 'a \<Rightarrow> 'a list" where
  "np_scale xs c = map (\<lambda>x. x * c) xs"

section \<open>The collaborators outside the module\<close>

text \<open>
  The module imports its numerical kernels: \<open>pchip\<close> from SciPy, \<open>BezierCurve\<close> and
  \<open>redistribute_planform\<close> from PGL (an optional import, recorded in the module flag
  \<open>_PGL_installed\<close>), \<open>NaturalCubicSpline\<close> and \<open>curvature\<close> from
  \<open>fusedwind.lib\<close>. None of them is defined in the module, so they are parameters of
  the model, gathered in one record; a theorem states what it needs of them.

  \<^item> \<open>pchip xp yp x\<close> is \<open>pchip(xp, yp)(x)\<close>;
  \<^item> \<open>BezierCurve xp yp\<close> is the curve's sampled points \<open>(points[:, 0], points[:, 1])\<close>
    after \<open>CPs = np.array([xp, yp]).T\<close> and \<open>update()\<close>;
  \<^item> \<open>NaturalCubicSpline px py x\<close> is \<open>NaturalCubicSpline(px, py)(x)\<close>;
  \<^item> \<open>curvature xs ys\<close> is \<open>curvature(np.array([xs, ys]).T)\<close>;
  \<^item> \<open>PGL_redistribute_planform pf s spline_type\<close> is PGL's function of that name,
    called with \<open>dist = []\<close>.
\<close>

record 'a extlib =
  PGL_installed :: bool
  pchip :: "'a list \<Rightarrow> 'a list \<Rightarrow> 'a list \<Rightarrow> pyerror + 'a list"
  BezierCurve :: "'a list \<Rightarrow> 'a list \<Rightarrow> pyerror + ('a list \<times> 'a list)"
  NaturalCubicSpline :: "'a list \<Rightarrow> 'a list \<Rightarrow> 'a list \<Rightarrow> pyerror + 'a list"
  curvature :: "'a list \<Rightarrow> 'a list \<Rightarrow> pyerror + 'a list"
  PGL_redistribute_planform ::
    "(string \<times> 'a list) list \<Rightarrow> 'a list \<Rightarrow> string \<Rightarrow> pyerror + (string \<times> 'a list) list"

section \<open>Spline strategies\<close>

text \<open>
  An instance of \<open>pchipSpline\<close> has no attribute. An instance of \<open>BezierSpline\<close> has
  the attribute \<open>B\<close> once \<open>initialize\<close> has run; the model keeps the control points
  last stored in \<open>B.CPs\<close>, and \<open>None\<close> while the attribute does not exist.
  \<open>spline_dict\<close> maps a name to its class; looking a name up and calling the class
  gives a fresh instance.
\<close>

datatype 'a spline = pchipSpline | BezierSpline "('a list \<times> 'a list) option"

definition spline_dict :: "(string \<times> 'a spline) list" where
  "spline_dict = [(''pchip'', pchipSpline), (''bezier'', BezierSpline None)]"

text \<open>
  \<open>__call__(x, Cx, C)\<close>: the new instance state and the resampled points.
  \<open>BezierSpline.__call__\<close> reads \<open>self.B\<close> first, an AttributeError without it.
\<close>

fun spline_call ::
  "'a extlib \<Rightarrow> 'a spline \<Rightarrow> 'a list \<Rightarrow> 'a list \<Rightarrow> 'a list \<Rightarrow> pyerror + ('a spline \<times> 'a list)" where
  "spline_call lib pchipSpline x Cx C =
     pybind (pchip lib Cx C x) (\<lambda>y. Inr (pchipSpline, y))"
| "spline_call lib (BezierSpline None) x Cx C = Inl AttributeError"
| "spline_call lib (BezierSpline (Some cps)) x Cx C =
     pybind (BezierCurve lib Cx C) (\<lambda>(px, py).
     pybind (NaturalCubicSpline lib px py x) (\<lambda>y.
     Inr (BezierSpline (Some (Cx, C)), y)))"

text \<open>
  \<open>initialize(x, xp, yp)\<close>. \<open>pchipSpline\<close> only calls itself. \<open>BezierSpline\<close> first
  builds \<open>BezierCurve()\<close>, a name that is not bound when the import of PGL failed.
\<close>

fun spline_initialize ::
  "'a extlib \<Rightarrow> 'a spline \<Rightarrow> 'a list \<Rightarrow> 'a list \<Rightarrow> 'a list \<Rightarrow> pyerror + ('a spline \<times> 'a list)" where
  "spline_initialize lib pchipSpline x xp yp = spline_call lib pchipSpline x xp yp"
| "spline_initialize lib (BezierSpline b) x xp yp =
     (if PGL_installed lib then spline_call lib (BezierSpline (Some (xp, yp))) x xp yp
      else Inl NameError)"

section \<open>FFDSpline\<close>

text \<open>
  The attributes of an \<open>FFDSpline\<close> instance, each field \<open>ffd_a\<close> for the attribute
  \<open>a\<close> (or \<open>_a\<close>); \<open>ffd_spline_type\<close> is \<open>spline_options['spline_type']\<close>, and
  \<open>ffd_spline\<close> is \<open>None\<close> until \<open>set_spline\<close> has run. \<open>ffd_calls\<close> is not an
  attribute: it records, in order, the calls the instance has made on its strategy, so
  that statements about when \<open>initialize\<close> runs can be made.
\<close>

datatype strategy_call = Initialize | Evaluate

record 'a FFDSpline =
  ffd_name :: string
  ffd_spline_type :: string
  ffd_nC :: nat
  ffd_Cx :: "'a list"
  ffd_s :: "'a list"
  ffd_Pinit :: "'a list"
  ffd_size :: nat
  ffd_scaler :: 'a
  ffd_init_called :: bool
  ffd_spline :: "'a spline option"
  ffd_P :: "'a list option"
  ffd_calls :: "strategy_call list"

text \<open>
  \<open>set_spline\<close>: the dictionary lookup raises KeyError on an unknown name, before
  anything is assigned. The option assignment accepts exactly the names \<open>pchip\<close> and
  \<open>bezier\<close>, which are the keys of \<open>spline_dict\<close>, so it cannot fail after the lookup.
\<close>

definition FFDSpline_set_spline :: "'a FFDSpline \<Rightarrow> string \<Rightarrow> pyerror + 'a FFDSpline" where
  "FFDSpline_set_spline self spline_type =
     (case map_of spline_dict spline_type of
        None \<Rightarrow> Inl KeyError
      | Some spl \<Rightarrow> Inr (self\<lparr>ffd_spline := Some spl, ffd_spline_type := spline_type\<rparr>))"

text \<open>\<open>__init__(name, s, P, Cx, scaler)\<close>; the option's default is \<open>bezier\<close>.\<close>

definition FFDSpline_init ::
  "string \<Rightarrow> 'a list \<Rightarrow> 'a list \<Rightarrow> 'a list \<Rightarrow> 'a \<Rightarrow> pyerror + 'a FFDSpline" where
  "FFDSpline_init name s P Cx scaler =
     FFDSpline_set_spline
       \<lparr>ffd_name = name, ffd_spline_type = ''bezier'', ffd_nC = length Cx, ffd_Cx = Cx,
        ffd_s = s, ffd_Pinit = P, ffd_size = length P, ffd_scaler = scaler,
        ffd_init_called = False, ffd_spline = None, ffd_P = None, ffd_calls = []\<rparr>
       ''bezier''"

text \<open>
  The strategy's methods on \<open>self.spline\<close>; on \<open>None\<close> the attribute lookup
  (\<open>initialize\<close>) or the call raises.
\<close>

definition self_spline_initialize ::
  "'a extlib \<Rightarrow> 'a FFDSpline \<Rightarrow> 'a list \<Rightarrow> pyerror + 'a FFDSpline" where
  "self_spline_initialize lib self C =
     (case ffd_spline self of
        None \<Rightarrow> Inl AttributeError
      | Some spl \<Rightarrow>
          pybind (spline_initialize lib spl (ffd_s self) (ffd_Cx self) C) (\<lambda>(spl', y).
          Inr (self\<lparr>ffd_spline := Some spl', ffd_calls := ffd_calls self @ [Initialize]\<rparr>)))"

definition self_spline_call ::
  "'a extlib \<Rightarrow> 'a FFDSpline \<Rightarrow> 'a list \<Rightarrow> pyerror + ('a FFDSpline \<times> 'a list)" where
  "self_spline_call lib self C =
     (case ffd_spline self of
        None \<Rightarrow> Inl TypeError
      | Some spl \<Rightarrow>
          pybind (spline_call lib spl (ffd_s self) (ffd_Cx self) C) (\<lambda>(spl', y).
          Inr (self\<lparr>ffd_spline := Some spl', ffd_calls := ffd_calls self @ [Evaluate]\<rparr>, y)))"

text \<open>
  \<open>solve_nonlinear(params, unknowns, resids)\<close>: the instance after the call and the
  dictionary of outputs. The block under \<open>if not self._init_called\<close> is
  \<open>FFDSpline_ensure_init\<close>; no statement of the class assigns \<open>_init_called\<close> after
  \<open>__init__\<close>. The two outputs are written last, so a call that raises writes none.
\<close>

definition FFDSpline_ensure_init ::
  "'a extlib \<Rightarrow> 'a FFDSpline \<Rightarrow> 'a list \<Rightarrow> pyerror + 'a FFDSpline" where
  "FFDSpline_ensure_init lib self C =
     (if \<not> ffd_init_called self then
        pybind (FFDSpline_set_spline self (ffd_spline_type self)) (\<lambda>self1.
        self_spline_initialize lib self1 C)
      else Inr self)"

definition FFDSpline_solve_nonlinear ::
  "'a::{plus,times} extlib \<Rightarrow> 'a FFDSpline \<Rightarrow> (string \<rightharpoonup> 'a list) \<Rightarrow> (string \<rightharpoonup> 'a list)
     \<Rightarrow> pyerror + ('a FFDSpline \<times> (string \<rightharpoonup> 'a list))" where
  "FFDSpline_solve_nonlinear lib self params unknowns =
     pybind (getitem params (ffd_name self @ ''_C'')) (\<lambda>C.
     pybind (FFDSpline_ensure_init lib self C) (\<lambda>self1.
     pybind (self_spline_call lib self1 C) (\<lambda>(self2, dP).
     pybind (np_add (ffd_Pinit self2) (np_scale dP (ffd_scaler self2))) (\<lambda>P.
     pybind (curvature lib (ffd_s self2) P) (\<lambda>curv.
     Inr (self2\<lparr>ffd_P := Some dP\<rparr>,
          unknowns(ffd_name self2 \<mapsto> P, ffd_name self2 @ ''_curv'' \<mapsto> curv)))))))"

section \<open>PGLRedistributedPlanform and ComputeAthick\<close>

text \<open>
  The attributes of a \<open>PGLRedistributedPlanform\<close> instance; \<open>size_in\<close> only sizes
  the declared parameters.
\<close>

record 'a PGLRedistributedPlanform =
  rp_spline_type :: string
  rp_s_new :: "'a list"
  rp_suffix :: string

definition PGLRedistributedPlanform_init ::
  "string \<Rightarrow> nat \<Rightarrow> 'a list \<Rightarrow> 'a PGLRedistributedPlanform" where
  "PGLRedistributedPlanform_init name size_in s_new =
     \<lparr>rp_spline_type = ''akima'', rp_s_new = s_new, rp_suffix = name\<rparr>"

text \<open>
  A dictionary built by the module is a list of items with distinct keys, in the order
  of insertion; \<open>d[k]\<close> is \<open>getitem (map_of d) k\<close>. \<open>read_params\<close> is the ten
  assignments \<open>pf_in[k] = params['blade_ae:' + k]\<close>.
\<close>

definition planform_keys :: "string list" where
  "planform_keys =
     [''s'', ''x'', ''y'', ''z'', ''rot_x'', ''rot_y'', ''rot_z'', ''chord'', ''rthick'', ''p_le'']"

fun read_params :: "(string \<rightharpoonup> 'v) \<Rightarrow> string list \<Rightarrow> pyerror + (string \<times> 'v) list" where
  "read_params params [] = Inr []"
| "read_params params (k # ks) =
     pybind (getitem params (''blade_ae:'' @ k)) (\<lambda>v.
     pybind (read_params params ks) (\<lambda>pf. Inr ((k, v) # pf)))"

text \<open>
  The module's own \<open>redistribute_planform\<close> (defined after the import, so it is the
  one \<open>solve_nonlinear\<close> calls) imports PGL's function when it runs and hands its
  arguments over.
\<close>

definition redistribute_planform ::
  "'a extlib \<Rightarrow> (string \<times> 'a list) list \<Rightarrow> 'a list \<Rightarrow> string \<Rightarrow> pyerror + (string \<times> 'a list) list" where
  "redistribute_planform lib pf s spline_type =
     (if PGL_installed lib then PGL_redistribute_planform lib pf s spline_type
      else Inl ImportError)"

text \<open>
  The loop of the branch without PGL, over the items of \<open>pf_in\<close>:
  \<open>pf[k] = pchip(pf_in['s'], v)(self.s_new)\<close>. The first exception ends it.
\<close>

fun pchip_channels ::
  "'a extlib \<Rightarrow> (string \<times> 'a list) list \<Rightarrow> 'a list \<Rightarrow> (string \<times> 'a list) list
     \<Rightarrow> pyerror + (string \<times> 'a list) list" where
  "pchip_channels lib pf_in s_new [] = Inr []"
| "pchip_channels lib pf_in s_new ((k, v) # items) =
     pybind (getitem (map_of pf_in) ''s'') (\<lambda>s.
     pybind (pchip lib s v s_new) (\<lambda>y.
     pybind (pchip_channels lib pf_in s_new items) (\<lambda>pf. Inr ((k, y) # pf))))"

text \<open>
  The loop \<open>unknowns['blade%s:%s' % (suffix, k)] = v\<close> over the items of \<open>pf\<close>.
  The keys of a dictionary are distinct, so the order of the assignments is immaterial;
  the fold is such that, were a key listed twice, its first item would stay, which is
  the item \<open>map_of\<close> reads.
\<close>

definition unknown_key :: "string \<Rightarrow> string \<Rightarrow> string" where
  "unknown_key suffix k = ''blade'' @ suffix @ '':'' @ k"

definition write_unknowns ::
  "string \<Rightarrow> (string \<times> 'v) list \<Rightarrow> (string \<rightharpoonup> 'v) \<Rightarrow> (string \<rightharpoonup> 'v)" where
  "write_unknowns suffix pf unknowns =
     foldr (\<lambda>(k, v) u. u(unknown_key suffix k \<mapsto> v)) pf unknowns"

definition PGLRedistributedPlanform_solve_nonlinear ::
  "'a::times extlib \<Rightarrow> 'a PGLRedistributedPlanform \<Rightarrow> (string \<rightharpoonup> 'a list) \<Rightarrow> (string \<rightharpoonup> 'a list)
     \<Rightarrow> pyerror + (string \<rightharpoonup> 'a list)" where
  "PGLRedistributedPlanform_solve_nonlinear lib self params unknowns =
     pybind (read_params params planform_keys) (\<lambda>pf_in.
     pybind (if PGL_installed lib
             then redistribute_planform lib pf_in (rp_s_new self) (rp_spline_type self)
             else pchip_channels lib pf_in (rp_s_new self) pf_in) (\<lambda>pf.
     pybind (getitem (map_of pf) ''chord'') (\<lambda>chord.
     pybind (getitem (map_of pf) ''rthick'') (\<lambda>rthick.
     pybind (np_multiply chord rthick) (\<lambda>athick.
     Inr ((write_unknowns (rp_suffix self) pf unknowns)
            (unknown_key (rp_suffix self) ''athick'' \<mapsto> athick)))))))"

definition ComputeAthick_solve_nonlinear ::
  "(string \<rightharpoonup> 'a::times list) \<Rightarrow> (string \<rightharpoonup> 'a list) \<Rightarrow> pyerror + (string \<rightharpoonup> 'a list)" where
  "ComputeAthick_solve_nonlinear params unknowns =
     pybind (getitem params ''blade_ae:chord'') (\<lambda>chord.
     pybind (getitem params ''blade_ae:rthick'') (\<lambda>rthick.
     pybind (np_multiply chord rthick) (\<lambda>athick.
     Inr (unknowns(''blade_ae:athick'' \<mapsto> athick)))))"

section \<open>read\_blade\_planform\<close>

text \<open>
  The numbers of a planform table are real numbers: rounding is not modelled, a
  finite result is the exact one. A NumPy division by zero raises nothing: it gives
  \<open>inf\<close> or \<open>nan\<close> under a warning, which is the value \<open>NonFinite\<close>; a product
  with such a factor is again \<open>inf\<close> or \<open>nan\<close>.
\<close>

datatype float64 = Finite real | NonFinite

definition np_divide :: "real \<Rightarrow> real \<Rightarrow> float64" where
  "np_divide a b = (if b = 0 then NonFinite else Finite (a / b))"

fun f64_times :: "float64 \<Rightarrow> float64 \<Rightarrow> float64" where
  "f64_times (Finite a) (Finite b) = Finite (a * b)"
| "f64_times a b = NonFinite"

text \<open>\<open>a.max()\<close> of a non-empty array, of finite numbers and of any floats.\<close>

definition amax :: "real list \<Rightarrow> real" where
  "amax xs = fold max (tl xs) (hd xs)"

fun finite_values :: "float64 list \<Rightarrow> real list option" where
  "finite_values [] = Some []"
| "finite_values (Finite a # vs) = map_option ((#) a) (finite_values vs)"
| "finite_values (NonFinite # vs) = None"

definition f64_amax :: "float64 list \<Rightarrow> float64" where
  "f64_amax vs = (case finite_values vs of None \<Rightarrow> NonFinite | Some xs \<Rightarrow> Finite (amax xs))"

text \<open>
  Modelled from the spec: the source of \<open>calculate_length\<close>, a function of
  \<open>fusedwind.lib.geom_tools\<close>, is missing. Section 4.1 of the specification has it as
  the cumulative Euclidean distance from the first point of a sequence of 3-D points:
  the result is as long as the input and starts with 0.
\<close>

fun dist3 :: "real \<times> real \<times> real \<Rightarrow> real \<times> real \<times> real \<Rightarrow> real" where
  "dist3 (x1, y1, z1) (x2, y2, z2) = sqrt ((x2 - x1)\<^sup>2 + (y2 - y1)\<^sup>2 + (z2 - z1)\<^sup>2)"

fun arc_from :: "real \<Rightarrow> real \<times> real \<times> real \<Rightarrow> (real \<times> real \<times> real) list \<Rightarrow> real list" where
  "arc_from acc p [] = []"
| "arc_from acc p (q # qs) = (acc + dist3 p q) # arc_from (acc + dist3 p q) q qs"

fun calculate_length :: "(real \<times> real \<times> real) list \<Rightarrow> real list" where
  "calculate_length [] = []"
| "calculate_length (p # ps) = 0 # arc_from 0 p ps"

text \<open>
  The dictionary \<open>read_blade_planform\<close> returns, a field \<open>pf_k\<close> for the key \<open>k\<close>.
\<close>

record planform =
  pf_blade_length :: real
  pf_s :: "float64 list"
  pf_smax :: real
  pf_x :: "float64 list"
  pf_y :: "float64 list"
  pf_z :: "float64 list"
  pf_rot_x :: "float64 list"
  pf_rot_y :: "float64 list"
  pf_rot_z :: "float64 list"
  pf_chord :: "float64 list"
  pf_rthick :: "float64 list"
  pf_athick :: "float64 list"
  pf_p_le :: "float64 list"

text \<open>
  The argument is the table \<open>np.loadtxt\<close> finds in the file: the rows of numbers,
  comment lines and blank lines left out. \<open>loadtxt\<close> raises ValueError when the rows
  differ in length, and returns a one-dimensional array for no row, one row, or one
  column, on which \<open>data[:, [0, 1, 2]]\<close> raises IndexError, as does a column index
  beyond the table's width. \<open>column data j\<close> is \<open>data[:, j]\<close> and
  \<open>axis_points data\<close> is \<open>data[:, [0, 1, 2]]\<close>.
\<close>

definition column :: "real list list \<Rightarrow> nat \<Rightarrow> real list" where
  "column data j = map (\<lambda>row. row ! j) data"

definition axis_points :: "real list list \<Rightarrow> (real \<times> real \<times> real) list" where
  "axis_points data = map (\<lambda>row. (row ! 0, row ! 1, row ! 2)) data"

definition read_blade_planform :: "real list list \<Rightarrow> pyerror + planform" where
  "read_blade_planform data =
     (if data = [] then Inl IndexError
      else if \<not> list_all (\<lambda>row. length row = length (hd data)) data then Inl ValueError
      else if length data < 2 then Inl IndexError
      else if length (hd data) < 9 then Inl IndexError
      else
        let s = calculate_length (axis_points data);
            blade_length = last data ! 2;
            chord = map (\<lambda>v. np_divide v blade_length) (column data 6);
            rthick = map (\<lambda>v. np_divide v (amax (column data 7))) (column data 7)
        in Inr \<lparr>pf_blade_length = blade_length,
                pf_s = map (\<lambda>v. np_divide v (last s)) s,
                pf_smax = last s,
                pf_x = map (\<lambda>v. np_divide v blade_length) (column data 0),
                pf_y = map (\<lambda>v. np_divide v blade_length) (column data 1),
                pf_z = map (\<lambda>v. np_divide v blade_length) (column data 2),
                pf_rot_x = map Finite (column data 3),
                pf_rot_y = map Finite (column data 4),
                pf_rot_z = map Finite (column data 5),
                pf_chord = chord,
                pf_rthick = rthick,
                pf_athick = map2 f64_times rthick chord,
                pf_p_le = map Finite (column data 8)\<rparr>)"

section \<open>What the theorems ask of the collaborators\<close>

text \<open>
  The interpolants and \<open>curvature\<close> return an array with one value for each point
  they are given (\<open>spl(x)\<close> has the shape of \<open>x\<close>).
\<close>

definition one_value_per_point :: "'a extlib \<Rightarrow> bool" where
  "one_value_per_point lib \<longleftrightarrow>
     (\<forall>xp yp x y. pchip lib xp yp x = Inr y \<longrightarrow> length y = length x) \<and>
     (\<forall>px py x y. NaturalCubicSpline lib px py x = Inr y \<longrightarrow> length y = length x) \<and>
     (\<forall>xs ys c. curvature lib xs ys = Inr c \<longrightarrow> length c = length xs)"

section \<open>Collaborators for closed examples\<close>

text \<open>
  The closed examples below need collaborators that compute. PGL is absent. The
  interpolant makes the argument checks of a monotone cubic fit (as many ordinates as
  abscissas, two points at least, strictly increasing abscissas, ValueError otherwise)
  and evaluates the piecewise-linear interpolant, continued beyond the end points; the
  curvature is that of points on a straight line. The examples use data on which these
  are the values of the real collaborators: control ordinates that are zero or lie on
  a straight line, and baselines that lie on a straight line.
\<close>

fun interp1 :: "real list \<Rightarrow> real list \<Rightarrow> real \<Rightarrow> real" where
  "interp1 (x0 # x1 # xs) (y0 # y1 # ys) t =
     (if t \<le> x1 then y0 + (y1 - y0) * (t - x0) / (x1 - x0)
      else if xs = [] then y0 + (y1 - y0) * (t - x0) / (x1 - x0)
      else interp1 (x1 # xs) (y1 # ys) t)"
| "interp1 xs ys t = 0"

definition linear_interpolant :: "real list \<Rightarrow> real list \<Rightarrow> real list \<Rightarrow> pyerror + real list" where
  "linear_interpolant xp yp x =
     (if length xp = length yp then
        (if 2 \<le> length xp then
           (if sorted_wrt (<) xp then Inr (map (interp1 xp yp) x) else Inl ValueError)
         else Inl ValueError)
      else Inl ValueError)"

definition straight_curvature :: "real list \<Rightarrow> real list \<Rightarrow> pyerror + real list" where
  "straight_curvature xs ys =
     (if length xs = length ys then Inr (map (\<lambda>x. 0) xs) else Inl ValueError)"

definition lib_without_PGL :: "real extlib" where
  "lib_without_PGL =
     \<lparr>PGL_installed = False,
      pchip = linear_interpolant,
      BezierCurve = (\<lambda>xp yp. Inl NameError),
      NaturalCubicSpline = (\<lambda>px py x. Inl NameError),
      curvature = straight_curvature,
      PGL_redistribute_planform = (\<lambda>pf s spline_type. Inl ImportError)\<rparr>"

text \<open>
  An engine for the chord, as \<open>SplinedBladePlanform.add_spline\<close> sets it up with
  \<open>spline_type = 'pchip'\<close>: the constructor, then the assignment to the option.
\<close>

definition chord_engine :: "pyerror + real FFDSpline" where
  "chord_engine =
     pybind (FFDSpline_init ''blade_ae:chord'' [0, 1/2, 1] [1, 3/4, 1/2] [0, 1] 1)
       (\<lambda>c. Inr (c\<lparr>ffd_spline_type := ''pchip''\<rparr>))"

text \<open>
  The parameters of a resampler: a straight blade given at its two ends, a chord that
  tapers from 1/10 to 1/20 and a relative thickness that falls from 1 to 1/2.
\<close>

definition straight_blade :: "string \<rightharpoonup> real list" where
  "straight_blade =
     [''blade_ae:s'' \<mapsto> [0, 1], ''blade_ae:x'' \<mapsto> [0, 0], ''blade_ae:y'' \<mapsto> [0, 0],
      ''blade_ae:z'' \<mapsto> [0, 1], ''blade_ae:rot_x'' \<mapsto> [0, 0], ''blade_ae:rot_y'' \<mapsto> [0, 0],
      ''blade_ae:rot_z'' \<mapsto> [0, 0], ''blade_ae:chord'' \<mapsto> [1/10, 1/20],
      ''blade_ae:rthick'' \<mapsto> [1, 1/2], ''blade_ae:p_le'' \<mapsto> [1/2, 1/2]]"

text \<open>
  Two planform tables. The axis of the first runs one unit along \<open>x\<close> and then one
  unit along \<open>z\<close>. The second has a single axis point, listed twice, and negative
  entries in the column \<open>rthick\<close>.
\<close>

definition curved_axis :: "real list list" where
  "curved_axis =
     [[0, 0, 0, 0, 0, 0, 1/10, 1, 1/2],
      [1, 0, 0, 0, 0, 0, 1/10, 1/2, 1/2],
      [1, 0, 1, 0, 0, 0, 1/20, 1/4, 1/2]]"

definition degenerate_table :: "real list list" where
  "degenerate_table =
     [[0, 0, 1, 0, 0, 0, 1/10, -1, 1/2],
      [0, 0, 1, 0, 0, 0, 1/20, -2, 1/2]]"

section \<open>Theorems\<close>

lemma pybind_Inr_iff:
  "pybind m f = Inr r \<longleftrightarrow> (\<exists>v. m = Inr v \<and> f v = Inr r)"
  by (cases m) (simp_all add: pybind_def)

lemma pybind_simps [simp]:
  "pybind (Inl e) f = Inl e" "pybind (Inr v) f = f v"
  by (simp_all add: pybind_def)

lemma map_of_spline_dict:
  "map_of (spline_dict :: (string \<times> 'a spline) list) k =
     (if k = ''pchip'' then Some pchipSpline
      else if k = ''bezier'' then Some (BezierSpline None) else None)"
  by (simp add: spline_dict_def)

lemma chord_engine_value:
  "chord_engine = Inr \<lparr>ffd_name = ''blade_ae:chord'', ffd_spline_type = ''pchip'', ffd_nC = 2,
      ffd_Cx = [0, 1], ffd_s = [0, 1/2, 1], ffd_Pinit = [1, 3/4, 1/2], ffd_size = 3,
      ffd_scaler = 1, ffd_init_called = False, ffd_spline = Some (BezierSpline None),
      ffd_P = None, ffd_calls = []\<rparr>"
  by (simp add: chord_engine_def FFDSpline_init_def FFDSpline_set_spline_def map_of_spline_dict)

text \<open>
  Claim C8, as the code has it. Selecting a strategy by a name other than \<open>pchip\<close> and
  \<open>bezier\<close> fails with the KeyError of the dictionary lookup, for every instance.
\<close>

theorem set_spline_unknown_name:
  assumes "spline_type \<noteq> ''pchip''" and "spline_type \<noteq> ''bezier''"
  shows "FFDSpline_set_spline self spline_type = Inl KeyError"
  using assms by (simp add: FFDSpline_set_spline_def map_of_spline_dict)

theorem set_spline_unknown_name_witness:
  "''akima'' \<noteq> ''pchip'' \<and> ''akima'' \<noteq> ''bezier'' \<and>
   FFDSpline_set_spline
     \<lparr>ffd_name = ''blade_ae:chord'', ffd_spline_type = ''pchip'', ffd_nC = 2,
      ffd_Cx = [0, 1], ffd_s = [0, 1/2, 1], ffd_Pinit = [1, 3/4, 1/2 :: real], ffd_size = 3,
      ffd_scaler = 1, ffd_init_called = False, ffd_spline = Some (BezierSpline None),
      ffd_P = None, ffd_calls = []\<rparr> ''akima'' = Inl KeyError"
  using set_spline_unknown_name [of "''akima''"] by simp

text \<open>
  Claim C8 as stated asks for ConfigurationError. On the engine for the chord the
  request for \<open>akima\<close> does not end in that error.
\<close>

theorem set_spline_not_ConfigurationError:
  "pybind chord_engine (\<lambda>c. FFDSpline_set_spline c ''akima'') \<noteq> Inl ConfigurationError"
  by (simp add: chord_engine_value FFDSpline_set_spline_def map_of_spline_dict)

subsection \<open>The engine: what a call leaves unchanged\<close>

lemma set_spline_fields:
  assumes "FFDSpline_set_spline self t = Inr self1"
  shows "ffd_name self1 = ffd_name self" "ffd_s self1 = ffd_s self" "ffd_Cx self1 = ffd_Cx self"
    "ffd_Pinit self1 = ffd_Pinit self" "ffd_scaler self1 = ffd_scaler self"
    "ffd_init_called self1 = ffd_init_called self" "ffd_nC self1 = ffd_nC self"
    "ffd_calls self1 = ffd_calls self" "ffd_spline_type self1 = t"
  using assms by (auto simp: FFDSpline_set_spline_def split: option.splits)

lemma self_spline_initialize_fields:
  assumes "self_spline_initialize lib self C = Inr self1"
  shows "ffd_name self1 = ffd_name self" "ffd_s self1 = ffd_s self" "ffd_Cx self1 = ffd_Cx self"
    "ffd_Pinit self1 = ffd_Pinit self" "ffd_scaler self1 = ffd_scaler self"
    "ffd_init_called self1 = ffd_init_called self" "ffd_nC self1 = ffd_nC self"
    "ffd_calls self1 = ffd_calls self @ [Initialize]" "ffd_spline_type self1 = ffd_spline_type self"
  using assms
  by (auto simp: self_spline_initialize_def pybind_Inr_iff split: option.splits)

lemma ensure_init_fields:
  assumes "FFDSpline_ensure_init lib self C = Inr self1"
  shows "ffd_name self1 = ffd_name self" "ffd_s self1 = ffd_s self" "ffd_Cx self1 = ffd_Cx self"
    "ffd_Pinit self1 = ffd_Pinit self" "ffd_scaler self1 = ffd_scaler self"
    "ffd_init_called self1 = ffd_init_called self" "ffd_nC self1 = ffd_nC self"
    "ffd_spline_type self1 = ffd_spline_type self"
  using assms
  by (auto simp: FFDSpline_ensure_init_def pybind_Inr_iff set_spline_fields
      self_spline_initialize_fields split: if_splits)

lemma ensure_init_calls:
  assumes "FFDSpline_ensure_init lib self C = Inr self1"
  shows "ffd_calls self1 = ffd_calls self @ (if ffd_init_called self then [] else [Initialize])"
  using assms
  by (auto simp: FFDSpline_ensure_init_def pybind_Inr_iff set_spline_fields
      self_spline_initialize_fields split: if_splits)

lemma self_spline_call_fields:
  assumes "self_spline_call lib self C = Inr (self1, y)"
  shows "ffd_name self1 = ffd_name self" "ffd_s self1 = ffd_s self" "ffd_Cx self1 = ffd_Cx self"
    "ffd_Pinit self1 = ffd_Pinit self" "ffd_scaler self1 = ffd_scaler self"
    "ffd_init_called self1 = ffd_init_called self" "ffd_nC self1 = ffd_nC self"
    "ffd_calls self1 = ffd_calls self @ [Evaluate]" "ffd_spline_type self1 = ffd_spline_type self"
  using assms
  by (auto simp: self_spline_call_def pybind_Inr_iff split: option.splits)

lemma spline_call_length:
  assumes "one_value_per_point lib" and "spline_call lib spl x Cx C = Inr (spl', y)"
  shows "length y = length x"
proof (cases spl)
  case pchipSpline
  with assms show ?thesis
    by (auto simp: one_value_per_point_def pybind_Inr_iff)
next
  case (BezierSpline b)
  with assms show ?thesis
    by (cases b) (auto simp: one_value_per_point_def pybind_Inr_iff)
qed

lemma np_add_scaled:
  assumes "length ps = length ds"
  shows "np_add ps (np_scale ds c) = Inr (map2 (\<lambda>p d. p + d * c) ps ds)"
  using assms by (simp add: np_add_def np_binop_def np_scale_def zip_map2 split_def)

lemma lib_without_PGL_shapes: "one_value_per_point lib_without_PGL"
  by (auto simp: one_value_per_point_def lib_without_PGL_def linear_interpolant_def
      straight_curvature_def split: if_splits)

text \<open>
  Claim C1. Let the baseline \<open>(s, P_init)\<close> have length \<open>N\<close>, let the block that
  prepares the strategy succeed, and let the strategy return \<open>delta\<close> for
  \<open>(s, Cx, C)\<close> and \<open>curvature\<close> return \<open>curv\<close> for the pairs of \<open>s\<close> and
  \<open>P_out = P_init + delta * scaler\<close>. Then the call returns, its two outputs are
  \<open>P_out\<close> and \<open>curv\<close>, and both have length \<open>N\<close>.
\<close>

theorem FFDSpline_solve_nonlinear_outputs:
  fixes lib :: "'a::{plus,times} extlib"
  assumes shapes: "one_value_per_point lib"
    and len: "length (ffd_s self) = N" "length (ffd_Pinit self) = N"
    and C: "params (ffd_name self @ ''_C'') = Some C"
    and init: "FFDSpline_ensure_init lib self C = Inr self1"
    and spl: "ffd_spline self1 = Some strategy"
    and delta: "spline_call lib strategy (ffd_s self) (ffd_Cx self) C = Inr (strategy', delta)"
    and P: "P_out = map2 (\<lambda>p d. p + d * ffd_scaler self) (ffd_Pinit self) delta"
    and curv: "curvature lib (ffd_s self) P_out = Inr curv"
  shows "(\<exists>self'. FFDSpline_solve_nonlinear lib self params unknowns =
            Inr (self', unknowns(ffd_name self \<mapsto> P_out, ffd_name self @ ''_curv'' \<mapsto> curv)))
       \<and> length P_out = N \<and> length curv = N"
proof -
  have ld: "length delta = N"
    using spline_call_length [OF shapes delta] len by simp
  have lP: "length P_out = N"
    using P ld len by simp
  have lc: "length curv = N"
    using shapes curv len by (auto simp: one_value_per_point_def)
  note f = ensure_init_fields [OF init]
  define self2 where
    "self2 = self1\<lparr>ffd_spline := Some strategy', ffd_calls := ffd_calls self1 @ [Evaluate]\<rparr>"
  have call: "self_spline_call lib self1 C = Inr (self2, delta)"
    using spl delta by (simp add: self_spline_call_def f self2_def)
  have add: "np_add (ffd_Pinit self2) (np_scale delta (ffd_scaler self2)) = Inr P_out"
    using np_add_scaled [of "ffd_Pinit self" delta "ffd_scaler self"] ld len P
    by (simp add: self2_def f)
  have "FFDSpline_solve_nonlinear lib self params unknowns =
          Inr (self2\<lparr>ffd_P := Some delta\<rparr>,
               unknowns(ffd_name self \<mapsto> P_out, ffd_name self @ ''_curv'' \<mapsto> curv))"
    using C init call add curv
    by (simp add: FFDSpline_solve_nonlinear_def getitem_def) (simp add: self2_def f)
  with lP lc show ?thesis by blast
qed

theorem FFDSpline_solve_nonlinear_outputs_witness:
  "one_value_per_point lib_without_PGL \<and>
   (\<exists>self'. pybind chord_engine (\<lambda>c.
        FFDSpline_solve_nonlinear lib_without_PGL c [''blade_ae:chord_C'' \<mapsto> [0, 1/5]] Map.empty) =
      Inr (self', [''blade_ae:chord'' \<mapsto> [1, 17/20, 7/10],
                   ''blade_ae:chord_curv'' \<mapsto> [0, 0, 0]])) \<and>
   length [1, 17/20, 7/10 :: real] = 3 \<and> length [0, 0, 0 :: real] = 3"
proof -
  let ?c = "\<lparr>ffd_name = ''blade_ae:chord'', ffd_spline_type = ''pchip'', ffd_nC = 2,
      ffd_Cx = [0, 1], ffd_s = [0, 1/2, 1], ffd_Pinit = [1, 3/4, 1/2 :: real], ffd_size = 3,
      ffd_scaler = 1, ffd_init_called = False, ffd_spline = Some (BezierSpline None),
      ffd_P = None, ffd_calls = []\<rparr>"
  let ?c1 = "?c\<lparr>ffd_spline := Some pchipSpline, ffd_calls := [Initialize]\<rparr>"
  have init: "FFDSpline_ensure_init lib_without_PGL ?c [0, 1/5] = Inr ?c1"
    by (simp add: FFDSpline_ensure_init_def FFDSpline_set_spline_def map_of_spline_dict
        self_spline_initialize_def lib_without_PGL_def linear_interpolant_def)
  have call: "spline_call lib_without_PGL pchipSpline (ffd_s ?c) (ffd_Cx ?c) [0, 1/5] =
      Inr (pchipSpline, [0, 1/10, 1/5])"
    by (simp add: lib_without_PGL_def linear_interpolant_def)
  have curv: "curvature lib_without_PGL (ffd_s ?c) [1, 17/20, 7/10] = Inr [0, 0, 0]"
    by (simp add: lib_without_PGL_def straight_curvature_def)
  show ?thesis
    using FFDSpline_solve_nonlinear_outputs [OF lib_without_PGL_shapes _ _ _ init _ call _ curv,
        of 3 "[''blade_ae:chord_C'' \<mapsto> [0, 1/5]]" Map.empty]
    by (simp add: chord_engine_value lib_without_PGL_shapes)
qed

text \<open>
  Conversely, a call that returns has gone through exactly these steps; it leaves
  \<open>_init_called\<close> as it was and has called the strategy's \<open>initialize\<close> unless
  \<open>_init_called\<close> held.
\<close>

lemma FFDSpline_solve_nonlinear_Inr:
  fixes lib :: "'a::{plus,times} extlib"
  assumes "FFDSpline_solve_nonlinear lib self params unknowns = Inr (self', unknowns')"
  shows "\<exists>C self1 strategy strategy' delta P_out curv.
           params (ffd_name self @ ''_C'') = Some C \<and>
           FFDSpline_ensure_init lib self C = Inr self1 \<and>
           ffd_spline self1 = Some strategy \<and>
           spline_call lib strategy (ffd_s self) (ffd_Cx self) C = Inr (strategy', delta) \<and>
           np_add (ffd_Pinit self) (np_scale delta (ffd_scaler self)) = Inr P_out \<and>
           curvature lib (ffd_s self) P_out = Inr curv \<and>
           unknowns' = unknowns(ffd_name self \<mapsto> P_out, ffd_name self @ ''_curv'' \<mapsto> curv) \<and>
           ffd_P self' = Some delta \<and>
           ffd_init_called self' = ffd_init_called self \<and>
           ffd_calls self' =
             ffd_calls self @ (if ffd_init_called self then [] else [Initialize]) @ [Evaluate]"
proof -
  from assms obtain C self1 self2 delta P_out curv where
    C: "getitem params (ffd_name self @ ''_C'') = Inr C"
    and init: "FFDSpline_ensure_init lib self C = Inr self1"
    and call: "self_spline_call lib self1 C = Inr (self2, delta)"
    and add: "np_add (ffd_Pinit self2) (np_scale delta (ffd_scaler self2)) = Inr P_out"
    and curv: "curvature lib (ffd_s self2) P_out = Inr curv"
    and res: "self' = self2\<lparr>ffd_P := Some delta\<rparr>"
      "unknowns' = unknowns(ffd_name self2 \<mapsto> P_out, ffd_name self2 @ ''_curv'' \<mapsto> curv)"
    by (auto simp: FFDSpline_solve_nonlinear_def pybind_Inr_iff)
  note f1 = ensure_init_fields [OF init] and f2 = self_spline_call_fields [OF call]
  from call obtain strategy strategy' where
    s: "ffd_spline self1 = Some strategy"
    and sc: "spline_call lib strategy (ffd_s self1) (ffd_Cx self1) C = Inr (strategy', delta)"
    by (auto simp: self_spline_call_def pybind_Inr_iff split: option.splits)
  have "params (ffd_name self @ ''_C'') = Some C"
    using C by (simp add: getitem_def split: option.splits)
  moreover have "ffd_calls self' =
      ffd_calls self @ (if ffd_init_called self then [] else [Initialize]) @ [Evaluate]"
    using res f2 ensure_init_calls [OF init] by simp
  ultimately show ?thesis
    using init s sc add curv res f1 f2 by (simp del: fun_upd_apply)
qed

lemma FFDSpline_init_called_never_set:
  fixes lib :: "'a::{plus,times} extlib"
  assumes "FFDSpline_solve_nonlinear lib self params unknowns = Inr (self', unknowns')"
  shows "ffd_init_called self' = ffd_init_called self"
  using FFDSpline_solve_nonlinear_Inr [OF assms] by blast

text \<open>
  Claim C3, evaluated on the code. The engine for the chord is called twice with the
  same control abscissas: \<open>_init_called\<close> is still False after both calls, and the
  strategy's \<open>initialize\<close> has run in each of them.
\<close>

theorem initialize_runs_on_every_call:
  "map_sum id (\<lambda>(c, u). (ffd_init_called c, ffd_calls c))
     (pybind chord_engine (\<lambda>c0.
      pybind (FFDSpline_solve_nonlinear lib_without_PGL c0
                [''blade_ae:chord_C'' \<mapsto> [0, 0]] Map.empty) (\<lambda>(c1, u1).
      FFDSpline_solve_nonlinear lib_without_PGL c1 [''blade_ae:chord_C'' \<mapsto> [0, 1/5]] u1)))
   = Inr (False, [Initialize, Evaluate, Initialize, Evaluate])"
  by (simp add: chord_engine_value FFDSpline_solve_nonlinear_def FFDSpline_ensure_init_def
      FFDSpline_set_spline_def map_of_spline_dict self_spline_initialize_def self_spline_call_def
      getitem_def lib_without_PGL_def linear_interpolant_def straight_curvature_def
      np_add_def np_binop_def np_scale_def)

subsection \<open>The engine and the length of the control vector\<close>






text \<open>
  Where the exception of a failing call comes from: a built-in exception of a
  statement of the module, or the exception a collaborator raised.
\<close>

lemma spline_call_error:
  assumes "spline_call lib spl x Cx C = Inl e"
  shows "e = AttributeError \<or> pchip lib Cx C x = Inl e \<or> BezierCurve lib Cx C = Inl e \<or>
         (\<exists>px py. NaturalCubicSpline lib px py x = Inl e)"
proof (cases spl)
  case pchipSpline
  with assms show ?thesis
    by (auto simp: pybind_def split: sum.splits)
next
  case (BezierSpline b)
  with assms show ?thesis
    by (cases b) (auto simp: pybind_def split: sum.splits)
qed

lemma spline_initialize_error:
  assumes "spline_initialize lib spl x Cx C = Inl e"
  shows "e = NameError \<or> e = AttributeError \<or> pchip lib Cx C x = Inl e \<or>
         BezierCurve lib Cx C = Inl e \<or> (\<exists>px py. NaturalCubicSpline lib px py x = Inl e)"
proof (cases spl)
  case pchipSpline
  with assms spline_call_error [of lib pchipSpline x Cx C e] show ?thesis by auto
next
  case (BezierSpline b)
  with assms spline_call_error [of lib "BezierSpline (Some (Cx, C))" x Cx C e] show ?thesis
    by (auto split: if_splits)
qed

lemma ensure_init_error:
  assumes "FFDSpline_ensure_init lib self C = Inl e"
  shows "e \<in> {KeyError, NameError, AttributeError} \<or>
         pchip lib (ffd_Cx self) C (ffd_s self) = Inl e \<or>
         BezierCurve lib (ffd_Cx self) C = Inl e \<or>
         (\<exists>px py. NaturalCubicSpline lib px py (ffd_s self) = Inl e)"
proof (cases "FFDSpline_set_spline self (ffd_spline_type self)")
  case (Inl e')
  with assms show ?thesis
    by (auto simp: FFDSpline_ensure_init_def FFDSpline_set_spline_def
        split: if_splits option.splits)
next
  case (Inr self1)
  note f = set_spline_fields [OF Inr]
  from assms Inr have "self_spline_initialize lib self1 C = Inl e"
    by (auto simp: FFDSpline_ensure_init_def split: if_splits)
  then show ?thesis
    using spline_initialize_error [of lib _ "ffd_s self" "ffd_Cx self" C e]
    by (auto simp: self_spline_initialize_def f pybind_def split: option.splits sum.splits)
qed

lemma self_spline_call_error:
  assumes "self_spline_call lib self C = Inl e"
  shows "e \<in> {TypeError, AttributeError} \<or>
         pchip lib (ffd_Cx self) C (ffd_s self) = Inl e \<or>
         BezierCurve lib (ffd_Cx self) C = Inl e \<or>
         (\<exists>px py. NaturalCubicSpline lib px py (ffd_s self) = Inl e)"
  using assms spline_call_error [of lib _ "ffd_s self" "ffd_Cx self" C e]
  by (auto simp: self_spline_call_def pybind_def split: option.splits sum.splits)

lemma np_add_error: "np_add xs ys = Inl e \<Longrightarrow> e = ValueError"
  by (auto simp: np_add_def np_binop_def split: if_splits)

lemma solve_nonlinear_error:
  fixes lib :: "'a::{plus,times} extlib"
  assumes "FFDSpline_solve_nonlinear lib self params unknowns = Inl e"
  shows "e \<in> {KeyError, NameError, AttributeError, TypeError, ValueError} \<or>
         (\<exists>C. pchip lib (ffd_Cx self) C (ffd_s self) = Inl e) \<or>
         (\<exists>C. BezierCurve lib (ffd_Cx self) C = Inl e) \<or>
         (\<exists>px py. NaturalCubicSpline lib px py (ffd_s self) = Inl e) \<or>
         (\<exists>P. curvature lib (ffd_s self) P = Inl e)"
proof (cases "params (ffd_name self @ ''_C'')")
  case None
  with assms show ?thesis
    by (simp add: FFDSpline_solve_nonlinear_def getitem_def)
next
  case (Some C)
  show ?thesis
  proof (cases "FFDSpline_ensure_init lib self C")
    case (Inl e1)
    with assms Some have "e1 = e"
      by (simp add: FFDSpline_solve_nonlinear_def getitem_def)
    with ensure_init_error [OF Inl] show ?thesis by blast
  next
    case init: (Inr self1)
    note f1 = ensure_init_fields [OF init]
    show ?thesis
    proof (cases "self_spline_call lib self1 C")
      case (Inl e2)
      with assms Some init have "e2 = e"
        by (simp add: FFDSpline_solve_nonlinear_def getitem_def)
      with self_spline_call_error [OF Inl] f1 show ?thesis by auto
    next
      case call: (Inr r)
      obtain self2 dP where r: "r = (self2, dP)" by (cases r)
      note f2 = self_spline_call_fields [OF call [unfolded r]]
      show ?thesis
      proof (cases "np_add (ffd_Pinit self2) (np_scale dP (ffd_scaler self2))")
        case (Inl e3)
        with assms Some init call r have "e3 = e"
          by (simp add: FFDSpline_solve_nonlinear_def getitem_def)
        with np_add_error [OF Inl] show ?thesis by simp
      next
        case (Inr P)
        with assms Some init call r have "curvature lib (ffd_s self2) P = Inl e"
          by (simp add: FFDSpline_solve_nonlinear_def getitem_def pybind_def split: sum.splits)
        then show ?thesis
          using f1 f2 by auto
      qed
    qed
  qed
qed

lemma ConfigurationError_only_from_a_collaborator:
  fixes lib :: "'a::{plus,times} extlib"
  assumes "FFDSpline_solve_nonlinear lib self params unknowns = Inl ConfigurationError"
  shows "(\<exists>C. pchip lib (ffd_Cx self) C (ffd_s self) = Inl ConfigurationError) \<or>
         (\<exists>C. BezierCurve lib (ffd_Cx self) C = Inl ConfigurationError) \<or>
         (\<exists>px py. NaturalCubicSpline lib px py (ffd_s self) = Inl ConfigurationError) \<or>
         (\<exists>P. curvature lib (ffd_s self) P = Inl ConfigurationError)"
  using solve_nonlinear_error [OF assms] by simp




subsection \<open>The resampler\<close>

lemma unknown_key_eq [simp]: "unknown_key suffix k = unknown_key suffix k' \<longleftrightarrow> k = k'"
  by (simp add: unknown_key_def)

lemma write_unknowns_apply:
  "write_unknowns suffix pf u (unknown_key suffix k) =
     (case map_of pf k of Some v \<Rightarrow> Some v | None \<Rightarrow> u (unknown_key suffix k))"
  by (induction pf) (auto simp: write_unknowns_def split: option.splits)

lemma read_params_keys:
  "read_params params ks = Inr pf \<Longrightarrow> map fst pf = ks"
  by (induction ks arbitrary: pf) (auto simp: pybind_Inr_iff)

lemma read_params_values:
  "read_params params ks = Inr pf \<Longrightarrow> distinct ks \<Longrightarrow> k \<in> set ks \<Longrightarrow>
     map_of pf k = params (''blade_ae:'' @ k)"
proof (induction ks arbitrary: pf)
  case Nil
  then show ?case by simp
next
  case (Cons a ks)
  then show ?case
    by (auto simp: pybind_Inr_iff getitem_def split: option.splits dest: read_params_keys)
qed

lemma read_params_other_key:
  "k \<notin> set ks \<Longrightarrow> read_params (params(''blade_ae:'' @ k := a)) ks = read_params params ks"
  by (induction ks) (auto simp: getitem_def)

lemma np_multiply_equal_lengths:
  "length xs = length ys \<Longrightarrow> np_multiply xs ys = Inr (map2 (*) xs ys)"
  by (simp add: np_multiply_def np_binop_def)

lemma solve_nonlinear_athick:
  fixes lib :: "'a::times extlib"
  assumes "PGLRedistributedPlanform_solve_nonlinear lib self params unknowns = Inr unknowns'"
  shows "\<exists>chord rthick athick.
           unknowns' (unknown_key (rp_suffix self) ''chord'') = Some chord \<and>
           unknowns' (unknown_key (rp_suffix self) ''rthick'') = Some rthick \<and>
           unknowns' (unknown_key (rp_suffix self) ''athick'') = Some athick \<and>
           np_multiply chord rthick = Inr athick"
proof -
  from assms obtain pf chord rthick athick where
    "map_of pf ''chord'' = Some chord" "map_of pf ''rthick'' = Some rthick"
    "np_multiply chord rthick = Inr athick"
    "unknowns' = (write_unknowns (rp_suffix self) pf unknowns)
       (unknown_key (rp_suffix self) ''athick'' \<mapsto> athick)"
    by (auto simp: PGLRedistributedPlanform_solve_nonlinear_def pybind_Inr_iff getitem_def
        split: option.splits)
  then show ?thesis
    by (simp add: write_unknowns_apply)
qed

lemma solve_nonlinear_ignores_athick:
  fixes lib :: "'a::times extlib"
  shows "PGLRedistributedPlanform_solve_nonlinear lib self
           (params(''blade_ae:athick'' := a)) unknowns =
         PGLRedistributedPlanform_solve_nonlinear lib self params unknowns"
proof -
  have "''athick'' \<notin> set planform_keys"
    by (simp add: planform_keys_def)
  then have "read_params (params(''blade_ae:'' @ ''athick'' := a)) planform_keys =
      read_params params planform_keys"
    by (rule read_params_other_key)
  then show ?thesis
    by (simp add: PGLRedistributedPlanform_solve_nonlinear_def)
qed

lemma straight_blade_resampled:
  "PGLRedistributedPlanform_solve_nonlinear lib_without_PGL
     (PGLRedistributedPlanform_init ''_st'' 2 [0, 1/2, 1]) straight_blade Map.empty =
   Inr ((write_unknowns ''_st''
          [(''s'', [0, 1/2, 1]), (''x'', [0, 0, 0]), (''y'', [0, 0, 0]), (''z'', [0, 1/2, 1]),
           (''rot_x'', [0, 0, 0]), (''rot_y'', [0, 0, 0]), (''rot_z'', [0, 0, 0]),
           (''chord'', [1/10, 3/40, 1/20]), (''rthick'', [1, 3/4, 1/2]),
           (''p_le'', [1/2, 1/2, 1/2])] Map.empty)
        (unknown_key ''_st'' ''athick'' \<mapsto> [1/10, 9/160, 1/40]))"
  by (simp add: PGLRedistributedPlanform_solve_nonlinear_def PGLRedistributedPlanform_init_def
      planform_keys_def straight_blade_def getitem_def lib_without_PGL_def
      linear_interpolant_def np_multiply_def np_binop_def)

text \<open>
  Claim C2. After every call of the resampler that returns, with PGL or without it,
  the output \<open>athick\<close> is the product \<open>chord * rthick\<close> of the output channels
  \<open>chord\<close> and \<open>rthick\<close>, as NumPy multiplies arrays: elementwise when they have
  one length. The element type and its multiplication are arbitrary, so the product
  is the very operation applied to the two outputs. An \<open>athick\<close> among the
  parameters is not read: the outputs are the same whatever it is.
\<close>

theorem redistribute_athick_is_product:
  fixes lib :: "'a::times extlib"
  assumes "PGLRedistributedPlanform_solve_nonlinear lib self params unknowns = Inr unknowns'"
  shows "\<exists>chord rthick athick.
           unknowns' (unknown_key (rp_suffix self) ''chord'') = Some chord \<and>
           unknowns' (unknown_key (rp_suffix self) ''rthick'') = Some rthick \<and>
           unknowns' (unknown_key (rp_suffix self) ''athick'') = Some athick \<and>
           np_multiply chord rthick = Inr athick \<and>
           (length chord = length rthick \<longrightarrow> athick = map2 (*) chord rthick) \<and>
           PGLRedistributedPlanform_solve_nonlinear lib self
             (params(''blade_ae:athick'' := a)) unknowns = Inr unknowns'"
proof -
  from solve_nonlinear_athick [OF assms] obtain chord rthick athick where
    *: "unknowns' (unknown_key (rp_suffix self) ''chord'') = Some chord"
       "unknowns' (unknown_key (rp_suffix self) ''rthick'') = Some rthick"
       "unknowns' (unknown_key (rp_suffix self) ''athick'') = Some athick"
       "np_multiply chord rthick = Inr athick"
    by blast
  then have "length chord = length rthick \<longrightarrow> athick = map2 (*) chord rthick"
    by (auto simp: np_multiply_equal_lengths)
  with * assms show ?thesis
    by (simp add: solve_nonlinear_ignores_athick)
qed

theorem redistribute_athick_is_product_witness:
  "\<exists>unknowns'.
     PGLRedistributedPlanform_solve_nonlinear lib_without_PGL
       (PGLRedistributedPlanform_init ''_st'' 2 [0, 1/2, 1]) straight_blade Map.empty =
       Inr unknowns' \<and>
     unknowns' ''blade_st:chord'' = Some [1/10, 3/40, 1/20] \<and>
     unknowns' ''blade_st:rthick'' = Some [1, 3/4, 1/2] \<and>
     unknowns' ''blade_st:athick'' = Some (map2 (*) [1/10, 3/40, 1/20] [1, 3/4, 1/2])"
proof -
  let ?self = "PGLRedistributedPlanform_init ''_st'' 2 [0, 1/2, 1 :: real]"
  define U where "U = (write_unknowns ''_st''
          [(''s'', [0, 1/2, 1]), (''x'', [0, 0, 0]), (''y'', [0, 0, 0]), (''z'', [0, 1/2, 1]),
           (''rot_x'', [0, 0, 0]), (''rot_y'', [0, 0, 0]), (''rot_z'', [0, 0, 0]),
           (''chord'', [1/10, 3/40, 1/20]), (''rthick'', [1, 3/4, 1/2 :: real]),
           (''p_le'', [1/2, 1/2, 1/2])] Map.empty)
        (unknown_key ''_st'' ''athick'' \<mapsto> [1/10, 9/160, 1/40])"
  have ret: "PGLRedistributedPlanform_solve_nonlinear lib_without_PGL ?self straight_blade
      Map.empty = Inr U"
    unfolding U_def by (rule straight_blade_resampled)
  have sfx: "rp_suffix ?self = ''_st''"
    by (simp add: PGLRedistributedPlanform_init_def)
  from redistribute_athick_is_product [OF ret] obtain chord rthick athick where
    c: "U (unknown_key ''_st'' ''chord'') = Some chord"
    and r: "U (unknown_key ''_st'' ''rthick'') = Some rthick"
    and a: "U (unknown_key ''_st'' ''athick'') = Some athick"
    and p: "length chord = length rthick \<longrightarrow> athick = map2 (*) chord rthick"
    unfolding sfx by blast
  have chord: "chord = [1/10, 3/40, 1/20]"
    using c by (simp add: U_def write_unknowns_apply)
  have rthick: "rthick = [1, 3/4, 1/2]"
    using r by (simp add: U_def write_unknowns_apply)
  have athick: "athick = map2 (*) [1/10, 3/40, 1/20] [1, 3/4, 1/2]"
    using p chord rthick by simp
  have keys: "unknown_key ''_st'' ''chord'' = ''blade_st:chord''"
    "unknown_key ''_st'' ''rthick'' = ''blade_st:rthick''"
    "unknown_key ''_st'' ''athick'' = ''blade_st:athick''"
    by (simp_all add: unknown_key_def)
  from ret c r a show ?thesis
    unfolding chord rthick athick keys by blast
qed

text \<open>The same for the component \<open>ComputeAthick\<close>.\<close>

lemma ComputeAthick_product:
  assumes "ComputeAthick_solve_nonlinear params unknowns = Inr unknowns'"
  shows "\<exists>chord rthick athick.
           params ''blade_ae:chord'' = Some chord \<and> params ''blade_ae:rthick'' = Some rthick \<and>
           np_multiply chord rthick = Inr athick \<and>
           unknowns' = unknowns(''blade_ae:athick'' \<mapsto> athick)"
  using assms
  by (auto simp: ComputeAthick_solve_nonlinear_def pybind_Inr_iff getitem_def
      split: option.splits)

text \<open>
  Without PGL, every channel of the output is the \<open>pchip\<close> interpolant of the input
  channel over the input \<open>s\<close>, evaluated at \<open>s_new\<close>; this holds for the channel
  \<open>s\<close> too, which is interpolated over itself and not assigned from \<open>s_new\<close>.
  Every output channel, \<open>athick\<close> included, has the length of \<open>s_new\<close>.
\<close>

lemma pchip_channels_keys:
  "pchip_channels lib pf_in s_new items = Inr pf \<Longrightarrow> map fst pf = map fst items"
  by (induction items arbitrary: pf) (auto simp: pybind_Inr_iff)

lemma pchip_channels_values:
  assumes "pchip_channels lib pf_in s_new items = Inr pf" and "map_of pf k = Some y"
  shows "\<exists>s v. map_of pf_in ''s'' = Some s \<and> map_of items k = Some v \<and>
           pchip lib s v s_new = Inr y"
  using assms
proof (induction items arbitrary: pf)
  case Nil
  then show ?case by simp
next
  case (Cons item items)
  obtain k' v' where item: "item = (k', v')" by (cases item)
  from Cons.prems(1) item obtain s y' pf' where
    s: "map_of pf_in ''s'' = Some s" and y': "pchip lib s v' s_new = Inr y'"
    and rest: "pchip_channels lib pf_in s_new items = Inr pf'" and pf: "pf = (k', y') # pf'"
    by (auto simp: pybind_Inr_iff getitem_def split: option.splits)
  show ?case
  proof (cases "k = k'")
    case True
    with Cons.prems(2) pf s y' item show ?thesis by simp
  next
    case False
    with Cons.prems(2) pf have "map_of pf' k = Some y" by simp
    from Cons.IH [OF rest this] False item show ?thesis by simp
  qed
qed

lemma fallback_channel:
  fixes lib :: "'a::times extlib"
  assumes absent: "\<not> PGL_installed lib"
    and ret: "PGLRedistributedPlanform_solve_nonlinear lib self params unknowns = Inr unknowns'"
    and k: "k \<in> set planform_keys"
  shows "\<exists>s v y. params ''blade_ae:s'' = Some s \<and> params (''blade_ae:'' @ k) = Some v \<and>
           pchip lib s v (rp_s_new self) = Inr y \<and>
           unknowns' (unknown_key (rp_suffix self) k) = Some y"
proof -
  from ret absent obtain pf_in pf athick where
    rd: "read_params params planform_keys = Inr pf_in"
    and ch: "pchip_channels lib pf_in (rp_s_new self) pf_in = Inr pf"
    and u: "unknowns' = (write_unknowns (rp_suffix self) pf unknowns)
              (unknown_key (rp_suffix self) ''athick'' \<mapsto> athick)"
    by (auto simp: PGLRedistributedPlanform_solve_nonlinear_def pybind_Inr_iff)
  have d: "distinct planform_keys" and s: "''s'' \<in> set planform_keys"
    and na: "k \<noteq> ''athick''"
    using k by (auto simp: planform_keys_def)
  have "map fst pf = planform_keys"
    using pchip_channels_keys [OF ch] read_params_keys [OF rd] by simp
  with k obtain y where y: "map_of pf k = Some y"
    by (metis domD dom_map_of_conv_image_fst list.set_map)
  from pchip_channels_values [OF ch y] obtain s' v where
    "map_of pf_in ''s'' = Some s'" "map_of pf_in k = Some v"
    "pchip lib s' v (rp_s_new self) = Inr y"
    by blast
  then show ?thesis
    using read_params_values [OF rd d s] read_params_values [OF rd d k] u y na
    by (simp add: write_unknowns_apply)
qed

lemma fallback_lengths:
  fixes lib :: "'a::times extlib"
  assumes absent: "\<not> PGL_installed lib" and shapes: "one_value_per_point lib"
    and ret: "PGLRedistributedPlanform_solve_nonlinear lib self params unknowns = Inr unknowns'"
    and k: "k \<in> set planform_keys \<or> k = ''athick''"
  shows "\<exists>y. unknowns' (unknown_key (rp_suffix self) k) = Some y \<and>
           length y = length (rp_s_new self)"
proof -
  have ch: "\<exists>y. unknowns' (unknown_key (rp_suffix self) k') = Some y \<and>
           length y = length (rp_s_new self)" if "k' \<in> set planform_keys" for k'
    using fallback_channel [OF absent ret that] shapes
    by (auto simp: one_value_per_point_def)
  show ?thesis
  proof (cases "k = ''athick''")
    case False
    with k ch show ?thesis by blast
  next
    case True
    from solve_nonlinear_athick [OF ret] obtain chord rthick athick where
      c: "unknowns' (unknown_key (rp_suffix self) ''chord'') = Some chord"
      and r: "unknowns' (unknown_key (rp_suffix self) ''rthick'') = Some rthick"
      and a: "unknowns' (unknown_key (rp_suffix self) ''athick'') = Some athick"
      and m: "np_multiply chord rthick = Inr athick"
      by blast
    have "length chord = length (rp_s_new self)" "length rthick = length (rp_s_new self)"
      using ch [of "''chord''"] ch [of "''rthick''"] c r by (auto simp: planform_keys_def)
    with m a True show ?thesis by (auto simp: np_multiply_equal_lengths)
  qed
qed

subsection \<open>Reading a planform table\<close>

lemma arc_from_length [simp]: "length (arc_from acc p qs) = length qs"
  by (induction qs arbitrary: acc p) auto

lemma calculate_length_length [simp]: "length (calculate_length ps) = length ps"
  by (cases ps) auto

lemma calculate_length_first: "ps \<noteq> [] \<Longrightarrow> hd (calculate_length ps) = 0"
  by (cases ps) auto

lemma last_arc_from:
  "last (acc # arc_from acc p qs) = acc + sum_list (map2 dist3 (p # qs) qs)"
  by (induction qs arbitrary: acc p) (auto simp: algebra_simps)

lemma last_calculate_length:
  "ps \<noteq> [] \<Longrightarrow> last (calculate_length ps) = sum_list (map2 dist3 ps (tl ps))"
  using last_arc_from [of 0] by (cases ps) auto

lemma amax_Max: "xs \<noteq> [] \<Longrightarrow> amax xs = Max (set xs)"
proof (cases xs)
  case Nil
  then show "xs \<noteq> [] \<Longrightarrow> amax xs = Max (set xs)" by simp
next
  case (Cons a as)
  then show ?thesis
    using Max.set_eq_fold [of a as] by (simp add: amax_def)
qed

lemma finite_values_map_Finite [simp]: "finite_values (map (\<lambda>v. Finite (f v)) xs) = Some (map f xs)"
  by (induction xs) auto

lemma amax_divide:
  assumes "xs \<noteq> []" and "0 < amax xs"
  shows "amax (map (\<lambda>v. v / amax xs) xs) = 1"
proof -
  let ?m = "Max (set xs)"
  have m: "amax xs = ?m" using assms(1) by (rule amax_Max)
  have pos: "0 < ?m" using assms(2) m by simp
  have "mono (\<lambda>v. v / ?m)"
    using pos by (auto simp: mono_def divide_right_mono)
  then have "(\<lambda>v. v / ?m) (Max (set xs)) = Max ((\<lambda>v. v / ?m) ` set xs)"
    using assms(1) by (intro mono_Max_commute) auto
  moreover have "amax (map (\<lambda>v. v / ?m) xs) = Max ((\<lambda>v. v / ?m) ` set xs)"
    using assms(1) by (simp add: amax_Max)
  ultimately show ?thesis
    using pos m by simp
qed


lemma read_blade_planform_Inr:
  assumes "read_blade_planform data = Inr pf"
  shows "2 \<le> length data"
    and "pf_blade_length pf = last data ! 2"
    and "pf_smax pf = last (calculate_length (axis_points data))"
    and "pf_s pf = map (\<lambda>v. np_divide v (last (calculate_length (axis_points data))))
                    (calculate_length (axis_points data))"
    and "pf_rthick pf = map (\<lambda>v. np_divide v (amax (column data 7))) (column data 7)"
  using assms
  by (auto simp: read_blade_planform_def Let_def split: if_splits)

lemma curved_axis_read:
  "\<exists>pf. read_blade_planform curved_axis = Inr pf"
  by (simp add: read_blade_planform_def curved_axis_def Let_def)

text \<open>
  Claim C4, as the code has it. For every table the function accepts, \<open>blade_length\<close>
  is the \<open>z\<close> coordinate of the last row (the span, by which \<open>x\<close>, \<open>y\<close>, \<open>z\<close> and
  \<open>chord\<close> are divided), not an arc length; \<open>smax\<close> is the total Euclidean length of
  the polygon through the axis points, the last entry of \<open>calculate_length\<close>; and
  \<open>s\<close> is that arc length divided by \<open>smax\<close>.
\<close>

theorem read_blade_planform_blade_length:
  assumes "read_blade_planform data = Inr pf"
  shows "pf_blade_length pf = last data ! 2 \<and>
         pf_smax pf = sum_list (map2 dist3 (axis_points data) (tl (axis_points data))) \<and>
         pf_smax pf = last (calculate_length (axis_points data)) \<and>
         pf_s pf = map (\<lambda>v. np_divide v (pf_smax pf)) (calculate_length (axis_points data))"
proof -
  note r = read_blade_planform_Inr [OF assms]
  have "axis_points data \<noteq> []"
    using r(1) by (auto simp: axis_points_def)
  then have "last (calculate_length (axis_points data)) =
      sum_list (map2 dist3 (axis_points data) (tl (axis_points data)))"
    by (rule last_calculate_length)
  with r show ?thesis by simp
qed

theorem read_blade_planform_blade_length_witness:
  "\<exists>pf. read_blade_planform curved_axis = Inr pf \<and> pf_blade_length pf = 1 \<and> pf_smax pf = 2 \<and>
     pf_s pf = [Finite 0, Finite (1/2), Finite 1]"
proof -
  from curved_axis_read obtain pf where pf: "read_blade_planform curved_axis = Inr pf" ..
  have "pf_blade_length pf = 1 \<and> pf_smax pf = 2 \<and> pf_s pf = [Finite 0, Finite (1/2), Finite 1]"
    using read_blade_planform_blade_length [OF pf]
    by (simp add: curved_axis_def axis_points_def np_divide_def)
  with pf show ?thesis by blast
qed

text \<open>
  Claim C4 as stated has \<open>blade_length\<close> equal to the total arc length. On the axis
  that runs one unit along \<open>x\<close> and one along \<open>z\<close> the former is 1, the latter 2.
\<close>

theorem blade_length_is_not_arc_length:
  "map_sum id (\<lambda>pf. (pf_blade_length pf, pf_smax pf)) (read_blade_planform curved_axis) =
     Inr (1, 2)"
  by (simp add: read_blade_planform_def curved_axis_def axis_points_def column_def Let_def)

text \<open>
  Claim C6, as the code has it. For every table the function accepts whose column
  \<open>rthick\<close> has a positive maximum and whose axis has a total arc length other than
  zero, the returned \<open>rthick\<close> has the maximum 1, and \<open>s\<close> starts at 0 and ends at 1.
\<close>

theorem read_blade_planform_normalized:
  assumes ret: "read_blade_planform data = Inr pf"
    and rthick: "0 < amax (column data 7)"
    and smax: "pf_smax pf \<noteq> 0"
  shows "f64_amax (pf_rthick pf) = Finite 1 \<and>
         pf_s pf \<noteq> [] \<and> hd (pf_s pf) = Finite 0 \<and> last (pf_s pf) = Finite 1"
proof -
  note r = read_blade_planform_Inr [OF ret]
  let ?s = "calculate_length (axis_points data)"
  have col: "column data 7 \<noteq> []"
    using r(1) by (auto simp: column_def)
  have "pf_rthick pf = map (\<lambda>v. Finite (v / amax (column data 7))) (column data 7)"
    using r(5) rthick by (simp add: np_divide_def)
  then have max: "f64_amax (pf_rthick pf) = Finite 1"
    using amax_divide [OF col rthick] by (simp add: f64_amax_def)
  have ne: "?s \<noteq> []"
    using r(1) by (auto simp: axis_points_def simp flip: length_0_conv)
  have last: "last ?s \<noteq> 0"
    using smax r(3) by simp
  have "hd ?s = 0"
    using r(1) by (intro calculate_length_first) (auto simp: axis_points_def)
  then have "hd (pf_s pf) = Finite 0" "last (pf_s pf) = Finite 1" "pf_s pf \<noteq> []"
    using ne last r(4) by (simp_all add: hd_map last_map np_divide_def)
  with max show ?thesis by simp
qed

theorem read_blade_planform_normalized_witness:
  "\<exists>pf. read_blade_planform curved_axis = Inr pf \<and> 0 < amax (column curved_axis 7) \<and>
     pf_smax pf \<noteq> 0 \<and> f64_amax (pf_rthick pf) = Finite 1 \<and>
     hd (pf_s pf) = Finite 0 \<and> last (pf_s pf) = Finite 1"
proof -
  from curved_axis_read obtain pf where pf: "read_blade_planform curved_axis = Inr pf" ..
  have a: "0 < amax (column curved_axis 7)"
    by (simp add: curved_axis_def column_def amax_def)
  have s: "pf_smax pf \<noteq> 0"
    using read_blade_planform_Inr(3) [OF pf] by (simp add: curved_axis_def axis_points_def)
  from read_blade_planform_normalized [OF pf a s] pf a s show ?thesis by blast
qed

text \<open>
  Claim C6 as stated holds of every table that is read. The table with one axis
  point listed twice and negative \<open>rthick\<close> is read: the maximum of the returned
  \<open>rthick\<close> is 2, and \<open>s\<close> is \<open>0 / 0\<close> at both ends.
\<close>

theorem degenerate_table_not_normalized:
  "map_sum id (\<lambda>pf. (f64_amax (pf_rthick pf), pf_s pf)) (read_blade_planform degenerate_table) =
     Inr (Finite 2, [NonFinite, NonFinite])"
  by (simp add: read_blade_planform_def degenerate_table_def axis_points_def column_def Let_def
      amax_def np_divide_def f64_amax_def)

end
